theory Spec2Isabelle
  imports Main "HOL-Library.Word"
begin

section \<open>Python values\<close>

text \<open>
  A Python \<open>bytes\<close> object is a list of 8-bit words.  A Python \<open>str\<close> is a list of
  Unicode code points (natural numbers): the request line and the headers reach the
  handler decoded as ISO-8859-1, but the decoded body text can hold any code point,
  among them U+FFFD, so the 8-bit \<open>char\<close> of HOL is too small.  \<open>lit\<close> turns a
  literal of the source into such a string.
\<close>

type_synonym byte = "8 word"
type_synonym pystr = "nat list"

definition lit :: "string \<Rightarrow> pystr" where
  "lit s = map of_char s"

definition nl :: pystr where
  "nl = [10]"

text \<open>\<open>sep.join(parts)\<close>.\<close>

fun join :: "pystr \<Rightarrow> pystr list \<Rightarrow> pystr" where
  "join sep [] = []"
| "join sep [x] = x"
| "join sep (x # y # ys) = x @ sep @ join sep (y # ys)"

text \<open>\<open>value.replace(old, new)\<close> for a one-character \<open>old\<close>.\<close>

definition replace_char :: "nat \<Rightarrow> pystr \<Rightarrow> pystr \<Rightarrow> pystr" where
  "replace_char old new value = concat (map (\<lambda>c. if c = old then new else [c]) value)"

text \<open>\<open>str(n)\<close> for a non-negative integer: its decimal digits.\<close>

fun str_nat :: "nat \<Rightarrow> pystr" where
  "str_nat n = (if n < 10 then [48 + n] else str_nat (n div 10) @ [48 + n mod 10])"

declare str_nat.simps [simp del]

text \<open>
  \<open>str.lower()\<close> on the code points of ISO-8859-1, the only ones a header name or the
  name asked for can hold: A-Z and the accented capitals move up by 32.
\<close>

definition lower_cp :: "nat \<Rightarrow> nat" where
  "lower_cp c = (if (65 \<le> c \<and> c \<le> 90) \<or> (192 \<le> c \<and> c \<le> 222 \<and> c \<noteq> 215) then c + 32 else c)"

definition lower :: "pystr \<Rightarrow> pystr" where
  "lower s = map lower_cp s"

text \<open>
  \<open>self.headers\<close> is the message object of the standard library: the header fields of
  the request in arrival order, as (name, value) pairs.  \<open>headers.get(name)\<close> returns
  the value of the first field whose name equals \<open>name\<close> up to case, \<open>None\<close> when
  there is none; \<open>headers.items()\<close> is the list of all the pairs.
\<close>

type_synonym message = "(pystr \<times> pystr) list"

fun headers_get :: "message \<Rightarrow> pystr \<Rightarrow> pystr option" where
  "headers_get [] name = None"
| "headers_get ((k, v) # hs) name =
     (if lower k = lower name then Some v else headers_get hs name)"

text \<open>
  A \<open>dict\<close> with string keys is an association list with distinct keys, in insertion
  order.  \<open>d[k] = v\<close> overwrites the value of a key that is present, where it stands,
  and appends a key that is new.  \<open>{k: v for k, v in items}\<close> stores the pairs one
  after the other into an empty dict.
\<close>

type_synonym pydict = "(pystr \<times> pystr) list"

fun dict_set :: "pydict \<Rightarrow> pystr \<Rightarrow> pystr \<Rightarrow> pydict" where
  "dict_set [] k v = [(k, v)]"
| "dict_set ((k', v') # d) k v =
     (if k' = k then (k, v) # d else (k', v') # dict_set d k v)"

definition dict_of_items :: "(pystr \<times> pystr) list \<Rightarrow> pydict" where
  "dict_of_items items = foldl (\<lambda>d (k, v). dict_set d k v) [] items"

section \<open>Codecs of the standard library\<close>

subsection \<open>UTF-8 and ISO-8859-1\<close>

text \<open>
  One step of the UTF-8 decoder of the interpreter, on the lead byte \<open>b0\<close> and the bytes
  after it.  \<open>(Some cp, k)\<close>: the code point \<open>cp\<close> was decoded from the lead byte and
  \<open>k\<close> more bytes.  \<open>(None, k)\<close>: a decoding error that covers the lead byte and \<open>k\<close>
  more bytes (an invalid start byte, an invalid continuation byte, or the input ending
  inside a sequence).  Overlong forms, surrogates and values above U+10FFFF are errors.
\<close>

definition is_cont :: "nat \<Rightarrow> bool" where
  "is_cont b = (128 \<le> b \<and> b < 192)"

definition second_ok3 :: "nat \<Rightarrow> nat \<Rightarrow> bool" where
  "second_ok3 b0 b1 = (is_cont b1 \<and> \<not> (if b1 < 160 then b0 = 224 else b0 = 237))"

definition second_ok4 :: "nat \<Rightarrow> nat \<Rightarrow> bool" where
  "second_ok4 b0 b1 = (is_cont b1 \<and> \<not> (if b1 < 144 then b0 = 240 else b0 = 244))"

definition utf8_step :: "nat \<Rightarrow> nat list \<Rightarrow> nat option \<times> nat" where
  "utf8_step b0 bs =
    (if b0 < 128 then (Some b0, 0)
     else if b0 < 194 then (None, 0)
     else if b0 < 224 then
       (case bs of
          [] \<Rightarrow> (None, 0)
        | b1 # _ \<Rightarrow>
            if is_cont b1 then (Some ((b0 - 192) * 64 + (b1 - 128)), 1) else (None, 0))
     else if b0 < 240 then
       (case bs of
          [] \<Rightarrow> (None, 0)
        | b1 # bs1 \<Rightarrow>
            if \<not> second_ok3 b0 b1 then (None, 0)
            else
              (case bs1 of
                 [] \<Rightarrow> (None, 1)
               | b2 # _ \<Rightarrow>
                   if is_cont b2
                   then (Some ((b0 - 224) * 4096 + (b1 - 128) * 64 + (b2 - 128)), 2)
                   else (None, 1)))
     else if b0 < 245 then
       (case bs of
          [] \<Rightarrow> (None, 0)
        | b1 # bs1 \<Rightarrow>
            if \<not> second_ok4 b0 b1 then (None, 0)
            else
              (case bs1 of
                 [] \<Rightarrow> (None, 1)
               | b2 # bs2 \<Rightarrow>
                   if \<not> is_cont b2 then (None, 1)
                   else
                     (case bs2 of
                        [] \<Rightarrow> (None, 2)
                      | b3 # _ \<Rightarrow>
                          if is_cont b3
                          then (Some ((b0 - 240) * 262144 + (b1 - 128) * 4096
                                      + (b2 - 128) * 64 + (b3 - 128)), 3)
                          else (None, 2))))
     else (None, 0))"

text \<open>\<open>body.decode("utf-8")\<close>: \<open>None\<close> stands for \<open>UnicodeDecodeError\<close>.\<close>

fun utf8_strict :: "nat list \<Rightarrow> pystr option" where
  "utf8_strict [] = Some []"
| "utf8_strict (b0 # bs) =
     (case utf8_step b0 bs of
        (None, k) \<Rightarrow> None
      | (Some cp, k) \<Rightarrow> map_option (Cons cp) (utf8_strict (drop k bs)))"

definition decode_utf8 :: "byte list \<Rightarrow> pystr option" where
  "decode_utf8 body = utf8_strict (map unat body)"

text \<open>\<open>body.decode("utf-8", errors="replace")\<close>: U+FFFD for each error.\<close>

fun utf8_replace :: "nat list \<Rightarrow> pystr" where
  "utf8_replace [] = []"
| "utf8_replace (b0 # bs) =
     (case utf8_step b0 bs of
        (None, k) \<Rightarrow> 65533 # utf8_replace (drop k bs)
      | (Some cp, k) \<Rightarrow> cp # utf8_replace (drop k bs))"

definition decode_utf8_replace :: "byte list \<Rightarrow> pystr" where
  "decode_utf8_replace body = utf8_replace (map unat body)"

text \<open>
  \<open>body.decode("utf-8", errors="backslashreplace")\<close>: each byte an error covers
  becomes the four characters \<open>\xNN\<close>, with two lower-case hexadecimal digits.
\<close>

definition hex_digit :: "nat \<Rightarrow> nat" where
  "hex_digit d = (if d < 10 then 48 + d else 87 + d)"

definition backslash_x :: "nat \<Rightarrow> pystr" where
  "backslash_x b = [92, 120, hex_digit (b div 16), hex_digit (b mod 16)]"

fun utf8_backslashreplace :: "nat list \<Rightarrow> pystr" where
  "utf8_backslashreplace [] = []"
| "utf8_backslashreplace (b0 # bs) =
     (case utf8_step b0 bs of
        (None, k) \<Rightarrow> concat (map backslash_x (b0 # take k bs)) @ utf8_backslashreplace (drop k bs)
      | (Some cp, k) \<Rightarrow> cp # utf8_backslashreplace (drop k bs))"

definition decode_utf8_backslashreplace :: "byte list \<Rightarrow> pystr" where
  "decode_utf8_backslashreplace body = utf8_backslashreplace (map unat body)"

text \<open>\<open>body.decode("latin1")\<close>: each byte is its own code point; it never fails.\<close>

definition decode_latin1 :: "byte list \<Rightarrow> pystr" where
  "decode_latin1 body = map unat body"

subsection \<open>Base64\<close>

text \<open>
  \<open>base64.b64encode\<close>: three bytes become four characters of the alphabet A-Z, a-z,
  0-9, +, /; a last group of one or two bytes is padded with \<open>=\<close>.  \<open>b64_char\<close> is
  the character of a six-bit value, \<open>b64_val\<close> the six-bit value of a character.
\<close>

definition b64_char :: "nat \<Rightarrow> nat" where
  "b64_char i =
    (if i < 26 then 65 + i
     else if i < 52 then 97 + (i - 26)
     else if i < 62 then 48 + (i - 52)
     else if i = 62 then 43 else 47)"

fun b64enc :: "nat list \<Rightarrow> pystr" where
  "b64enc [] = []"
| "b64enc [a] = [b64_char (a div 4), b64_char ((a mod 4) * 16), 61, 61]"
| "b64enc [a, b] =
     [b64_char (a div 4), b64_char ((a mod 4) * 16 + b div 16), b64_char ((b mod 16) * 4), 61]"
| "b64enc (a # b # c # rest) =
     [b64_char (a div 4), b64_char ((a mod 4) * 16 + b div 16),
      b64_char ((b mod 16) * 4 + c div 64), b64_char (c mod 64)] @ b64enc rest"

definition b64encode :: "byte list \<Rightarrow> pystr" where
  "b64encode body = b64enc (map unat body)"

definition b64_val :: "nat \<Rightarrow> nat option" where
  "b64_val c =
    (if 65 \<le> c \<and> c \<le> 90 then Some (c - 65)
     else if 97 \<le> c \<and> c \<le> 122 then Some (c - 97 + 26)
     else if 48 \<le> c \<and> c \<le> 57 then Some (c - 48 + 52)
     else if c = 43 then Some 62
     else if c = 47 then Some 63
     else None)"

text \<open>
  The decoder of RFC 4648 on a padded text: \<open>None\<close> for a text that is not Base64.
\<close>

fun b64dec :: "pystr \<Rightarrow> nat list option" where
  "b64dec [] = Some []"
| "b64dec (c1 # c2 # c3 # c4 # rest) =
     (case (b64_val c1, b64_val c2) of
        (Some v1, Some v2) \<Rightarrow>
          if c3 = 61 \<and> c4 = 61 \<and> rest = [] then Some [v1 * 4 + v2 div 16]
          else
            (case b64_val c3 of
               None \<Rightarrow> None
             | Some v3 \<Rightarrow>
                 if c4 = 61 \<and> rest = []
                 then Some [v1 * 4 + v2 div 16, (v2 mod 16) * 16 + v3 div 4]
                 else
                   (case b64_val c4 of
                      None \<Rightarrow> None
                    | Some v4 \<Rightarrow>
                        map_option
                          (\<lambda>r. [v1 * 4 + v2 div 16, (v2 mod 16) * 16 + v3 div 4,
                                (v3 mod 4) * 64 + v4] @ r)
                          (b64dec rest)))
      | _ \<Rightarrow> None)"
| "b64dec _ = None"

definition b64decode :: "pystr \<Rightarrow> byte list option" where
  "b64decode s = map_option (map of_nat) (b64dec s)"

subsection \<open>textwrap.indent and str.strip\<close>

text \<open>
  \<open>str.isspace\<close> on one character, and the line boundaries of \<open>str.splitlines\<close>.
\<close>

definition is_space :: "nat \<Rightarrow> bool" where
  "is_space c =
    ((9 \<le> c \<and> c \<le> 13) \<or> (28 \<le> c \<and> c \<le> 32) \<or> c = 133 \<or> c = 160 \<or> c = 5760
     \<or> (8192 \<le> c \<and> c \<le> 8202) \<or> c = 8232 \<or> c = 8233 \<or> c = 8239 \<or> c = 8287
     \<or> c = 12288)"

definition is_linebreak :: "nat \<Rightarrow> bool" where
  "is_linebreak c =
    ((10 \<le> c \<and> c \<le> 13) \<or> (28 \<le> c \<and> c \<le> 30) \<or> c = 133 \<or> c = 8232 \<or> c = 8233)"

text \<open>
  \<open>text.splitlines(True)\<close>: the lines with their line ends; a carriage return right
  before a line feed does not end the line, the line feed does.
\<close>

fun splitlines_keepends :: "pystr \<Rightarrow> pystr \<Rightarrow> pystr list" where
  "splitlines_keepends cur [] = (if cur = [] then [] else [cur])"
| "splitlines_keepends cur (c # cs) =
     (if is_linebreak c \<and> \<not> (c = 13 \<and> (case cs of [] \<Rightarrow> False | d # _ \<Rightarrow> d = 10))
      then (cur @ [c]) # splitlines_keepends [] cs
      else splitlines_keepends (cur @ [c]) cs)"

text \<open>\<open>textwrap.indent(text, prefix)\<close>: the prefix before every line that is not blank.\<close>

definition indent :: "pystr \<Rightarrow> pystr \<Rightarrow> pystr" where
  "indent text prefix =
    concat (map (\<lambda>line. if list_all is_space line then line else prefix @ line)
                (splitlines_keepends [] text))"

definition strip :: "pystr \<Rightarrow> pystr" where
  "strip s = rev (dropWhile is_space (rev (dropWhile is_space s)))"

subsection \<open>Builtins taken as parameters\<close>

text \<open>
  Three functions of the interpreter are parameters of the model, so that every theorem
  holds whatever they compute: \<open>int(s)\<close> on a string (\<open>None\<close> stands for
  \<open>ValueError\<close>), \<open>repr\<close> of a string and of a dict of strings, and
  \<open>textwrap.dedent\<close>.  So is one number of the platform: \<open>py_read_max\<close>, the
  largest length that \<open>read\<close> on a buffered stream serves.  A longer one makes the
  call raise: \<open>OverflowError\<close> when the length does not fit an index-sized integer
  (from \<open>2 ^ 63\<close> on, on a 64-bit platform), \<open>MemoryError\<close> when the buffer of that
  length cannot be allocated.
\<close>

record pylib =
  py_int :: "pystr \<Rightarrow> int option"
  py_repr :: "pystr \<Rightarrow> pystr"
  py_repr_dict :: "pydict \<Rightarrow> pystr"
  py_dedent :: "pystr \<Rightarrow> pystr"
  py_read_max :: int

text \<open>
  A concrete library to run the model on: \<open>int\<close> on an optional sign followed by
  ASCII digits, \<open>repr\<close> on printable ASCII text with no quote and no backslash,
  \<open>dedent\<close> on a text with an unindented line, and reads of up to \<open>2 ^ 63 - 1\<close>
  bytes.
\<close>

fun digits_value :: "nat \<Rightarrow> pystr \<Rightarrow> nat option" where
  "digits_value acc [] = Some acc"
| "digits_value acc (c # cs) =
     (if 48 \<le> c \<and> c \<le> 57 then digits_value (acc * 10 + (c - 48)) cs else None)"

definition int_ascii :: "pystr \<Rightarrow> int option" where
  "int_ascii s =
    (case s of
       [] \<Rightarrow> None
     | c # cs \<Rightarrow>
         if c = 45 then (if cs = [] then None else map_option (\<lambda>n. - int n) (digits_value 0 cs))
         else if c = 43 then (if cs = [] then None else map_option int (digits_value 0 cs))
         else map_option int (digits_value 0 s))"

definition repr_ascii :: "pystr \<Rightarrow> pystr" where
  "repr_ascii s = [39] @ s @ [39]"

definition repr_dict_ascii :: "pydict \<Rightarrow> pystr" where
  "repr_dict_ascii d =
    lit ''{'' @ join (lit '', '') (map (\<lambda>(k, v). repr_ascii k @ lit '': '' @ repr_ascii v) d)
    @ lit ''}''"

definition ascii_lib :: pylib where
  "ascii_lib = \<lparr>py_int = int_ascii, py_repr = repr_ascii, py_repr_dict = repr_dict_ascii,
                py_dedent = (\<lambda>s. s), py_read_max = 9223372036854775807\<rparr>"

section \<open>Helpers of the server\<close>

text \<open>\<open>_shell_quote\<close>: the value between single quotes, each single quote written \<open>'\''\<close>.\<close>

definition shell_quote :: "pystr \<Rightarrow> pystr" where
  "shell_quote value = [39] @ replace_char 39 [39, 92, 39, 39] value @ [39]"

definition build_curl :: "pystr \<Rightarrow> pystr \<Rightarrow> pydict \<Rightarrow> byte list \<Rightarrow> pystr" where
  "build_curl method url hdrs body =
    (let parts0 = [lit ''curl'', lit ''-i'', lit ''-X'', method];
         parts1 = parts0
           @ concat (map (\<lambda>(key, val). [lit ''-H'', shell_quote (key @ lit '': '' @ val)]) hdrs);
         parts2 =
           (if body \<noteq> [] then
              (case decode_utf8 body of
                 Some body_text \<Rightarrow> parts1 @ [lit ''--data-raw'', shell_quote body_text]
               | None \<Rightarrow> parts1 @ [lit ''--data-binary'', shell_quote (decode_latin1 body)])
            else parts1);
         parts3 = parts2 @ [shell_quote url]
     in join (lit '' '') parts3)"

definition build_httpie :: "pystr \<Rightarrow> pystr \<Rightarrow> pydict \<Rightarrow> byte list \<Rightarrow> pystr" where
  "build_httpie method url hdrs body =
    (let parts0 = [lit ''http'', lit ''-v'', method, shell_quote url];
         parts1 = parts0 @ map (\<lambda>(key, val). shell_quote (key @ lit '':'' @ val)) hdrs;
         parts2 =
           (if body \<noteq> [] then
              (case decode_utf8 body of
                 Some body_text \<Rightarrow> parts1 @ [lit ''--raw'', shell_quote body_text]
               | None \<Rightarrow> parts1 @ [lit ''--raw'', shell_quote (decode_latin1 body)])
            else parts1)
     in join (lit '' '') parts2)"

definition build_python_requests ::
  "pylib \<Rightarrow> pystr \<Rightarrow> pystr \<Rightarrow> pydict \<Rightarrow> byte list \<Rightarrow> pystr" where
  "build_python_requests L method url hdrs body =
    (let body_literal = py_repr L (decode_utf8_backslashreplace body);
         headers_literal = py_repr_dict L hdrs;
         snippet =
           nl @ lit ''import requests'' @ nl
           @ nl
           @ lit ''url = '' @ py_repr L url @ nl
           @ lit ''headers = '' @ headers_literal @ nl
           @ lit ''data = '' @ body_literal @ nl
           @ nl
           @ lit ''resp = requests.request('' @ py_repr L method
           @ lit '', url, headers=headers, data=data)'' @ nl
           @ lit ''print(resp.status_code)'' @ nl
           @ lit ''print(resp.text)'' @ nl
     in strip (py_dedent L snippet))"

section \<open>The server wrapper: the transcript renderer\<close>

text \<open>
  \<open>LogServer.log_request\<close> reads the clock once and passes one text to the logger.
  The model takes the clock reading \<open>timestamp\<close> as an argument and returns that text.
  \<open>transcript_lines\<close> is the list \<open>lines\<close> of the source.
\<close>

definition headers_block :: "pydict \<Rightarrow> pystr" where
  "headers_block hdrs =
    (let joined = join nl (map (\<lambda>(k, v). lit ''  - '' @ k @ lit '': '' @ v) hdrs)
     in if joined \<noteq> [] then joined else lit ''  - (none)'')"

definition transcript_lines ::
  "pylib \<Rightarrow> pystr \<Rightarrow> pystr \<Rightarrow> pystr \<Rightarrow> pystr \<Rightarrow> pydict \<Rightarrow> byte list \<Rightarrow> pystr
   \<Rightarrow> pystr list" where
  "transcript_lines L timestamp method pth url hdrs body client =
    (let body_utf8 = (if body \<noteq> [] then decode_utf8_replace body else []);
         body_b64 = (if body \<noteq> [] then b64encode body else []);
         curl_cmd = build_curl method url hdrs body;
         httpie_cmd = build_httpie method url hdrs body;
         requests_snippet = build_python_requests L method url hdrs body
     in [lit ''----- REQUEST START '' @ timestamp @ lit '' -----'',
         lit ''client: '' @ client,
         lit ''method: '' @ method,
         lit ''path: '' @ pth,
         lit ''url: '' @ url,
         lit ''headers:'',
         headers_block hdrs,
         lit ''body:'',
         lit ''  length: '' @ str_nat (length body) @ lit '' bytes'',
         lit ''  utf8: '' @ body_utf8,
         lit ''  base64: '' @ body_b64,
         lit ''replay:'',
         lit ''  curl: |'',
         indent curl_cmd (lit ''    ''),
         lit ''  httpie: |'',
         indent httpie_cmd (lit ''    ''),
         lit ''  python_requests: |'',
         indent requests_snippet (lit ''    ''),
         lit ''----- REQUEST END '' @ timestamp @ lit '' -----'' @ nl])"

definition log_request ::
  "pylib \<Rightarrow> pystr \<Rightarrow> pystr \<Rightarrow> pystr \<Rightarrow> pystr \<Rightarrow> pydict \<Rightarrow> byte list \<Rightarrow> pystr
   \<Rightarrow> pystr" where
  "log_request L timestamp method pth url hdrs body client =
    join nl (transcript_lines L timestamp method pth url hdrs body client)"

section \<open>The request handler\<close>

text \<open>
  The parsed request the handler object holds, the server object, and the world of one
  handler run: the bytes not yet read from the connection (all the bytes the peer
  sends before it closes) and the effects of the run in the order they happen.
  \<open>server_name\<close> and \<open>server_port\<close> are the attributes the standard library sets when
  the server binds: the host name it finds for the bound address, and the bound port.
  An exception that leaves the handler is the last effect of the run.  Errors of the
  operating system on the socket or on the log file are not modelled.
\<close>

record request =
  command :: pystr
  path :: pystr
  headers :: message
  client_address :: pystr

record server =
  server_name :: pystr
  server_port :: nat
  response_body :: "byte list"
  response_content_type :: pystr

datatype pyerror = ReadRaised

datatype event =
    RfileRead int
  | LoggerInfo pystr
  | SendResponse nat
  | SendHeader pystr pystr
  | EndHeaders
  | WfileWrite "byte list"
  | SendError nat
  | Raised pyerror

record world =
  rfile :: "byte list"
  events :: "event list"

definition emit :: "event \<Rightarrow> world \<Rightarrow> world" where
  "emit e w = w\<lparr>events := events w @ [e]\<rparr>"

text \<open>
  \<open>self.rfile.read(n)\<close>: the next \<open>n\<close> bytes, fewer when the stream ends before;
  with a negative \<open>n\<close>, all the bytes up to the end of the stream; with an \<open>n\<close>
  above \<open>py_read_max\<close> the call raises and takes nothing from the stream.
\<close>

definition rfile_read :: "pylib \<Rightarrow> int \<Rightarrow> world \<Rightarrow> (pyerror + byte list) \<times> world" where
  "rfile_read L n w =
    (if py_read_max L < n then (Inl ReadRaised, emit (RfileRead n) w)
     else if n < 0 then (Inr (rfile w), emit (RfileRead n) (w\<lparr>rfile := []\<rparr>))
     else (Inr (take (nat n) (rfile w)),
           emit (RfileRead n) (w\<lparr>rfile := drop (nat n) (rfile w)\<rparr>)))"

text \<open>
  \<open>_read_body\<close> catches the \<open>ValueError\<close> of \<open>int\<close> and nothing else: an exception
  of the read goes through.
\<close>

definition read_body :: "pylib \<Rightarrow> request \<Rightarrow> world \<Rightarrow> (pyerror + byte list) \<times> world" where
  "read_body L r w =
    (case headers_get (headers r) (lit ''Content-Length'') of
       None \<Rightarrow> (Inr [], w)
     | Some length_str \<Rightarrow>
         if length_str = [] then (Inr [], w)
         else
           (let len = (case py_int L length_str of Some n \<Rightarrow> n | None \<Rightarrow> 0)
            in if len > 0 then rfile_read L len w else (Inr [], w)))"

text \<open>
  \<open>_respond\<close>.  When the body read raises, the exception leaves the handler before
  anything is logged or sent.
\<close>

definition respond :: "pylib \<Rightarrow> server \<Rightarrow> pystr \<Rightarrow> request \<Rightarrow> world \<Rightarrow> world" where
  "respond L srv timestamp r w =
    (let (res, w1) = read_body L r w in
     case res of
       Inl e \<Rightarrow> emit (Raised e) w1
     | Inr body \<Rightarrow>
        (let host_header =
               (case headers_get (headers r) (lit ''Host'') of
                  Some h \<Rightarrow> h
                | None \<Rightarrow> server_name srv @ lit '':'' @ str_nat (server_port srv));
             full_url = lit ''http://'' @ host_header @ path r;
             w2 = emit (LoggerInfo (log_request L timestamp (command r) (path r) full_url
                                      (dict_of_items (headers r)) body (client_address r))) w1;
             w3 = emit (SendResponse 200) w2;
             w4 = emit (SendHeader (lit ''Content-Type'') (response_content_type srv)) w3;
             w5 = emit (SendHeader (lit ''Content-Length'')
                          (str_nat (length (response_body srv)))) w4;
             w6 = emit EndHeaders w5
         in emit (WfileWrite (response_body srv)) w6))"

text \<open>
  \<open>do_GET = do_POST = do_PUT = do_PATCH = do_DELETE = do_OPTIONS = _respond\<close>: the
  methods the class defines.  The base class of the standard library looks up the
  method \<open>do_\<close> followed by the command of the request line; it calls it when the class
  has it and answers \<open>send_error(501)\<close> when not.
\<close>

definition do_methods :: "pystr list" where
  "do_methods = [lit ''GET'', lit ''POST'', lit ''PUT'', lit ''PATCH'', lit ''DELETE'',
                 lit ''OPTIONS'']"

definition handle_one_request ::
  "pylib \<Rightarrow> server \<Rightarrow> pystr \<Rightarrow> request \<Rightarrow> world \<Rightarrow> world" where
  "handle_one_request L srv timestamp r w =
    (if command r \<in> set do_methods then respond L srv timestamp r w
     else emit (SendError 501) w)"

section \<open>Observations on a run\<close>

text \<open>
  What a run shows from outside: the texts passed to the logger, the calls that write
  to the client, and both together in the order they happened.
\<close>

fun is_read :: "event \<Rightarrow> bool" where
  "is_read (RfileRead n) = True"
| "is_read e = False"

fun is_log :: "event \<Rightarrow> bool" where
  "is_log (LoggerInfo t) = True"
| "is_log e = False"

fun is_raise :: "event \<Rightarrow> bool" where
  "is_raise (Raised x) = True"
| "is_raise e = False"

definition logged :: "world \<Rightarrow> pystr list" where
  "logged w = concat (map (\<lambda>e. case e of LoggerInfo t \<Rightarrow> [t] | _ \<Rightarrow> []) (events w))"

definition reads :: "world \<Rightarrow> int list" where
  "reads w = concat (map (\<lambda>e. case e of RfileRead n \<Rightarrow> [n] | _ \<Rightarrow> []) (events w))"

definition sent :: "world \<Rightarrow> event list" where
  "sent w = filter (\<lambda>e. \<not> is_read e \<and> \<not> is_log e \<and> \<not> is_raise e) (events w)"

definition log_and_sent :: "world \<Rightarrow> event list" where
  "log_and_sent w = filter (\<lambda>e. \<not> is_read e \<and> \<not> is_raise e) (events w)"

text \<open>The URL the handler reconstructs, and the response it is configured to send.\<close>

definition full_url :: "server \<Rightarrow> request \<Rightarrow> pystr" where
  "full_url srv r =
    lit ''http://''
    @ (case headers_get (headers r) (lit ''Host'') of
         Some h \<Rightarrow> h
       | None \<Rightarrow> server_name srv @ lit '':'' @ str_nat (server_port srv))
    @ path r"

definition fixed_response :: "server \<Rightarrow> event list" where
  "fixed_response srv =
    [SendResponse 200,
     SendHeader (lit ''Content-Type'') (response_content_type srv),
     SendHeader (lit ''Content-Length'') (str_nat (length (response_body srv))),
     EndHeaders,
     WfileWrite (response_body srv)]"

text \<open>The names of a header list in the order of their first arrival, each once.\<close>

definition first_arrivals :: "'a list \<Rightarrow> 'a list" where
  "first_arrivals ks = rev (remdups (rev ks))"

text \<open>Sample data to run the model on.\<close>

definition sample_server :: server where
  "sample_server =
    \<lparr>server_name = lit ''localhost'', server_port = 6565,
     response_body = [111, 107, 10],
     response_content_type = lit ''text/plain; charset=utf-8''\<rparr>"

definition fresh :: "byte list \<Rightarrow> world" where
  "fresh bs = \<lparr>rfile = bs, events = []\<rparr>"

definition sample_request :: "pystr \<Rightarrow> pystr \<Rightarrow> message \<Rightarrow> request" where
  "sample_request m p hs =
    \<lparr>command = m, path = p, headers = hs, client_address = lit ''127.0.0.1''\<rparr>"

section \<open>Reading a replay command back\<close>
















text \<open>The text both command-line forms carry for a body: none for an empty body.\<close>

definition body_text :: "byte list \<Rightarrow> pystr option" where
  "body_text body =
    (if body = [] then None
     else Some (case decode_utf8 body of Some t \<Rightarrow> t | None \<Rightarrow> decode_latin1 body))"






section \<open>Properties of the handler\<close>

subsection \<open>Effects of one run\<close>

lemma logged_emit:
  "logged (emit e w) = logged w @ (case e of LoggerInfo t \<Rightarrow> [t] | _ \<Rightarrow> [])"
  by (simp add: logged_def emit_def)

lemma sent_emit:
  "sent (emit e w)
   = sent w @ (if \<not> is_read e \<and> \<not> is_log e \<and> \<not> is_raise e then [e] else [])"
  by (simp add: sent_def emit_def)

lemma log_and_sent_emit:
  "log_and_sent (emit e w)
   = log_and_sent w @ (if \<not> is_read e \<and> \<not> is_raise e then [e] else [])"
  by (simp add: log_and_sent_def emit_def)

lemma read_body_logged: "logged (snd (read_body L r w)) = logged w"
  by (auto simp: read_body_def rfile_read_def emit_def Let_def logged_def split: option.splits)

lemma read_body_sent: "sent (snd (read_body L r w)) = sent w"
  by (auto simp: read_body_def rfile_read_def emit_def Let_def sent_def split: option.splits)

lemma read_body_log_and_sent: "log_and_sent (snd (read_body L r w)) = log_and_sent w"
  by (auto simp: read_body_def rfile_read_def emit_def Let_def log_and_sent_def
      split: option.splits)

lemma respond_logged:
  "logged (respond L srv ts r w) =
     logged w
     @ (case fst (read_body L r w) of
          Inl e \<Rightarrow> []
        | Inr body \<Rightarrow>
            [log_request L ts (command r) (path r) (full_url srv r)
               (dict_of_items (headers r)) body (client_address r)])"
  by (cases "fst (read_body L r w)")
     (simp_all add: respond_def Let_def split_beta logged_emit read_body_logged full_url_def)

lemma respond_sent:
  "sent (respond L srv ts r w) =
     sent w @ (case fst (read_body L r w) of Inl e \<Rightarrow> [] | Inr body \<Rightarrow> fixed_response srv)"
  by (cases "fst (read_body L r w)")
     (simp_all add: respond_def Let_def split_beta sent_emit read_body_sent fixed_response_def)

lemma respond_log_and_sent:
  "log_and_sent (respond L srv ts r w) =
     log_and_sent w
     @ (case fst (read_body L r w) of
          Inl e \<Rightarrow> []
        | Inr body \<Rightarrow>
            LoggerInfo (log_request L ts (command r) (path r) (full_url srv r)
                          (dict_of_items (headers r)) body (client_address r))
            # fixed_response srv)"
  by (cases "fst (read_body L r w)")
     (simp_all add: respond_def Let_def split_beta log_and_sent_emit read_body_log_and_sent
        fixed_response_def full_url_def)

lemma digits_value_snoc:
  "48 \<le> d \<Longrightarrow> d \<le> 57 \<Longrightarrow>
   digits_value acc (xs @ [d]) = map_option (\<lambda>v. v * 10 + (d - 48)) (digits_value acc xs)"
  by (induction xs arbitrary: acc) auto

lemma str_nat_value: "digits_value 0 (str_nat n) = Some n"
proof (induction n rule: str_nat.induct)
  case (1 n)
  show ?case
  proof (cases "n < 10")
    case True
    then show ?thesis by (subst str_nat.simps) simp
  next
    case False
    with 1 have "digits_value 0 (str_nat (n div 10)) = Some (n div 10)" by simp
    with False show ?thesis
      by (subst str_nat.simps) (simp add: digits_value_snoc)
  qed
qed

subsection \<open>Method dispatch\<close>

lemma defined_methods_reach_respond:
  "command r \<in> set do_methods \<Longrightarrow> handle_one_request L srv ts r w = respond L srv ts r w"
  by (simp add: handle_one_request_def)

lemma handle_one_request_sent:
  "sent (handle_one_request L srv ts r w) =
     sent w
     @ (if command r \<in> set do_methods
        then (case fst (read_body L r w) of Inl e \<Rightarrow> [] | Inr body \<Rightarrow> fixed_response srv)
        else [SendError 501])"
  by (simp add: handle_one_request_def respond_sent sent_emit)

lemma handle_one_request_log_and_sent:
  "log_and_sent (handle_one_request L srv ts r w) =
     log_and_sent w
     @ (if command r \<in> set do_methods
        then (case fst (read_body L r w) of
                Inl e \<Rightarrow> []
              | Inr body \<Rightarrow>
                  LoggerInfo (log_request L ts (command r) (path r) (full_url srv r)
                                (dict_of_items (headers r)) body (client_address r))
                  # fixed_response srv)
        else [SendError 501])"
  by (simp add: handle_one_request_def respond_log_and_sent log_and_sent_emit)

text \<open>
  A Content-Length of \<open>2 ^ 63\<close>: \<open>int\<close> accepts it, the read raises, and the exception
  leaves the handler with nothing logged and nothing sent.
\<close>

lemma oversized_content_length_raises:
  "events (handle_one_request ascii_lib sample_server (lit ''2024-05-01T10:00:00'')
            (sample_request (lit ''POST'') (lit ''/a'')
               [(lit ''Content-Length'', lit ''9223372036854775808'')])
            (fresh [1, 2, 3]))
   = [RfileRead 9223372036854775808, Raised ReadRaised]"
  by (simp add: handle_one_request_def respond_def read_body_def rfile_read_def
      sample_request_def do_methods_def ascii_lib_def int_ascii_def lit_def emit_def fresh_def)

text \<open>
  Claim C1.  What the server sends for a request, on the dispatch of the base class.
  For a request whose method the class defines and whose body read does not raise, it
  is status 200, a Content-Type header with the configured content type, a
  Content-Length header whose value, read as decimal digits, is the byte length of the
  configured body, the end of the headers, and the configured body, byte for byte,
  whatever the path, the headers and the body of the request.  For a request with any
  other method it is the error answer 501 and nothing else: at the request
  \<open>HEAD /\<close> the fixed response is not sent.
\<close>

theorem handle_one_request_response:
  "sent (handle_one_request L srv ts r w) =
     sent w
     @ (if command r \<in> set do_methods
        then (case fst (read_body L r w) of Inl e \<Rightarrow> [] | Inr body \<Rightarrow> fixed_response srv)
        else [SendError 501])
   \<and> digits_value 0 (str_nat (length (response_body srv))) = Some (length (response_body srv))
   \<and> sent (handle_one_request ascii_lib sample_server (lit ''2024-05-01T10:00:00'')
             (sample_request (lit ''HEAD'') (lit ''/'') [(lit ''Host'', lit ''example.com'')])
             (fresh []))
     = [SendError 501]"
proof -
  have "lit ''HEAD'' \<notin> set do_methods"
    by (simp add: do_methods_def lit_def)
  then have "sent (handle_one_request ascii_lib sample_server (lit ''2024-05-01T10:00:00'')
             (sample_request (lit ''HEAD'') (lit ''/'') [(lit ''Host'', lit ''example.com'')])
             (fresh []))
     = [SendError 501]"
    by (simp add: handle_one_request_sent sample_request_def) (simp add: sent_def fresh_def)
  then show ?thesis
    by (simp add: handle_one_request_sent str_nat_value)
qed

text \<open>
  Claim C7.  What the server logs and sends for a request, in the order it happens, on
  the dispatch of the base class.  For a request whose method the class defines and
  whose body read does not raise, it is exactly one transcript block passed to the
  logger, and after it the calls that write the response.  For a request with any
  other method it is the error answer 501 alone: at the request \<open>HEAD /\<close>, which is
  parsed without error, no transcript block is passed to the logger.
\<close>

theorem handle_one_request_logs_then_responds:
  "log_and_sent (handle_one_request L srv ts r w) =
     log_and_sent w
     @ (if command r \<in> set do_methods
        then (case fst (read_body L r w) of
                Inl e \<Rightarrow> []
              | Inr body \<Rightarrow>
                  LoggerInfo (log_request L ts (command r) (path r) (full_url srv r)
                                (dict_of_items (headers r)) body (client_address r))
                  # fixed_response srv)
        else [SendError 501])
   \<and> logged (handle_one_request ascii_lib sample_server (lit ''2024-05-01T10:00:00'')
               (sample_request (lit ''HEAD'') (lit ''/'') [(lit ''Host'', lit ''example.com'')])
               (fresh []))
     = []"
proof -
  have "lit ''HEAD'' \<notin> set do_methods"
    by (simp add: do_methods_def lit_def)
  then have "logged (handle_one_request ascii_lib sample_server (lit ''2024-05-01T10:00:00'')
               (sample_request (lit ''HEAD'') (lit ''/'') [(lit ''Host'', lit ''example.com'')])
               (fresh []))
     = []"
    by (simp add: handle_one_request_def sample_request_def logged_emit)
       (simp add: logged_def fresh_def)
  then show ?thesis
    by (simp add: handle_one_request_log_and_sent)
qed

text \<open>
  Claim C2.  The class defines \<open>do_GET\<close>, \<open>do_POST\<close>, \<open>do_PUT\<close>, \<open>do_PATCH\<close>,
  \<open>do_DELETE\<close> and \<open>do_OPTIONS\<close> only.  A request with another method token, here
  \<open>HEAD\<close>, does not reach the handler: the only effect is the error answer 501, nothing
  is passed to the logger and the fixed response is not sent.
\<close>

theorem head_request_is_not_handled:
  "events (handle_one_request ascii_lib sample_server (lit ''2024-05-01T10:00:00'')
            (sample_request (lit ''HEAD'') (lit ''/'') [(lit ''Host'', lit ''example.com'')])
            (fresh []))
   = [SendError 501]"
  by (simp add: handle_one_request_def sample_request_def do_methods_def lit_def emit_def
      fresh_def)

subsection \<open>The body read\<close>

text \<open>
  Claim C4.  When the request has no Content-Length header, or has one that is empty
  or that \<open>int\<close> rejects, the body is empty and the world is unchanged by the body
  read: no read is issued on the connection and no byte leaves the stream, in the whole
  run of the handler; the transcript is rendered from the empty body.
\<close>

theorem missing_or_invalid_content_length:
  assumes "case headers_get (headers r) (lit ''Content-Length'') of
             None \<Rightarrow> True | Some s \<Rightarrow> s = [] \<or> py_int L s = None"
  shows "read_body L r w = (Inr [], w)
       \<and> reads (respond L srv ts r w) = reads w
       \<and> rfile (respond L srv ts r w) = rfile w
       \<and> logged (respond L srv ts r w) =
           logged w @ [log_request L ts (command r) (path r) (full_url srv r)
                         (dict_of_items (headers r)) [] (client_address r)]"
proof -
  have rb: "read_body L r w = (Inr [], w)"
    using assms by (auto simp: read_body_def Let_def split: option.splits)
  show ?thesis
    by (simp add: rb respond_logged) (simp add: respond_def rb Let_def emit_def reads_def)
qed

theorem missing_or_invalid_content_length_witness:
  "read_body ascii_lib
     (sample_request (lit ''POST'') (lit ''/a'') [(lit ''Content-Length'', lit ''abc'')])
     (fresh [1, 2, 3]) = (Inr [], fresh [1, 2, 3])
   \<and> read_body ascii_lib
     (sample_request (lit ''POST'') (lit ''/a'') [(lit ''Host'', lit ''h'')])
     (fresh [1, 2, 3]) = (Inr [], fresh [1, 2, 3])"
proof -
  have h1: "case headers_get
                   (headers (sample_request (lit ''POST'') (lit ''/a'')
                      [(lit ''Content-Length'', lit ''abc'')]))
                   (lit ''Content-Length'') of
              None \<Rightarrow> True | Some s \<Rightarrow> s = [] \<or> py_int ascii_lib s = None"
    by (simp add: sample_request_def ascii_lib_def int_ascii_def lit_def)
  have h2: "case headers_get
                   (headers (sample_request (lit ''POST'') (lit ''/a'') [(lit ''Host'', lit ''h'')]))
                   (lit ''Content-Length'') of
              None \<Rightarrow> True | Some s \<Rightarrow> s = [] \<or> py_int ascii_lib s = None"
    by (simp add: sample_request_def lit_def lower_def lower_cp_def)
  show ?thesis
    using missing_or_invalid_content_length [OF h1] missing_or_invalid_content_length [OF h2]
    by blast
qed

text \<open>
  Claim C10.  When the Content-Length header parses as an integer that is zero or
  negative, the body read returns the empty byte string and leaves the world as it was:
  no read is issued, so the read with a negative length, which would take the stream
  to its end, does not happen.
\<close>

theorem nonpositive_content_length:
  assumes "headers_get (headers r) (lit ''Content-Length'') = Some s"
      and "py_int L s = Some n" and "n \<le> 0"
  shows "read_body L r w = (Inr [], w) \<and> reads (respond L srv ts r w) = reads w
         \<and> rfile (respond L srv ts r w) = rfile w"
proof -
  have rb: "read_body L r w = (Inr [], w)"
    using assms by (auto simp: read_body_def Let_def split: option.splits)
  show ?thesis
    by (simp add: rb) (simp add: respond_def rb Let_def emit_def reads_def)
qed

theorem nonpositive_content_length_witness:
  "read_body ascii_lib
     (sample_request (lit ''POST'') (lit ''/a'') [(lit ''Content-Length'', lit ''-5'')])
     (fresh [1, 2, 3]) = (Inr [], fresh [1, 2, 3])
   \<and> read_body ascii_lib
     (sample_request (lit ''POST'') (lit ''/a'') [(lit ''content-length'', lit ''0'')])
     (fresh [1, 2, 3]) = (Inr [], fresh [1, 2, 3])"
proof -
  have g1: "headers_get
              (headers (sample_request (lit ''POST'') (lit ''/a'')
                 [(lit ''Content-Length'', lit ''-5'')]))
              (lit ''Content-Length'') = Some (lit ''-5'')"
    by (simp add: sample_request_def)
  have p1: "py_int ascii_lib (lit ''-5'') = Some (- 5)"
    by (simp add: ascii_lib_def int_ascii_def lit_def)
  have g2: "headers_get
              (headers (sample_request (lit ''POST'') (lit ''/a'')
                 [(lit ''content-length'', lit ''0'')]))
              (lit ''Content-Length'') = Some (lit ''0'')"
    by (simp add: sample_request_def lit_def lower_def lower_cp_def)
  have p2: "py_int ascii_lib (lit ''0'') = Some 0"
    by (simp add: ascii_lib_def int_ascii_def lit_def)
  show ?thesis
    using nonpositive_content_length [OF g1 p1] nonpositive_content_length [OF g2 p2]
    by simp
qed

subsection \<open>The reconstructed URL\<close>



subsection \<open>The headers of the transcript\<close>

lemma dict_set_keys:
  "map fst (dict_set d k v) = (if k \<in> set (map fst d) then map fst d else map fst d @ [k])"
  by (induction d) (auto split: if_splits)

lemma dict_set_map_of: "map_of (dict_set d k v) = (map_of d)(k \<mapsto> v)"
  by (induction d) (auto simp: fun_eq_iff)

lemma dict_set_fresh: "k \<notin> set (map fst d) \<Longrightarrow> dict_set d k v = d @ [(k, v)]"
  by (induction d) auto

lemma remdups_drop_later: "k \<in> set ys \<Longrightarrow> remdups (xs @ k # ys) = remdups (xs @ ys)"
  by (induction xs) auto

lemma foldl_dict_set_keys:
  "distinct (map fst d) \<Longrightarrow>
   map fst (foldl (\<lambda>d (k, v). dict_set d k v) d hs) = first_arrivals (map fst d @ map fst hs)"
proof (induction hs arbitrary: d)
  case Nil
  then show ?case by (simp add: first_arrivals_def distinct_remdups_id)
next
  case (Cons h hs)
  obtain k v where h: "h = (k, v)" by (cases h)
  have dist: "distinct (map fst (dict_set d k v))"
    using Cons.prems by (simp add: dict_set_keys)
  have "first_arrivals (map fst (dict_set d k v) @ map fst hs)
        = first_arrivals (map fst d @ k # map fst hs)"
    by (auto simp: dict_set_keys first_arrivals_def remdups_drop_later)
  with Cons.IH [OF dist] show ?case by (simp add: h)
qed

lemma foldl_dict_set_map_of:
  "map_of (foldl (\<lambda>d (k, v). dict_set d k v) d hs) = map_of d ++ map_of (rev hs)"
proof (induction hs arbitrary: d)
  case Nil
  then show ?case by simp
next
  case (Cons h hs)
  obtain k v where h: "h = (k, v)" by (cases h)
  show ?case
    by (simp add: h Cons.IH dict_set_map_of map_add_upd_left fun_eq_iff map_add_def split: option.splits)
qed

lemma foldl_dict_set_distinct:
  "distinct (map fst (d @ hs)) \<Longrightarrow> foldl (\<lambda>d (k, v). dict_set d k v) d hs = d @ hs"
proof (induction hs arbitrary: d)
  case Nil
  then show ?case by simp
next
  case (Cons h hs)
  obtain k v where h: "h = (k, v)" by (cases h)
  have "dict_set d k v = d @ [(k, v)]"
    using Cons.prems by (intro dict_set_fresh) (auto simp: h)
  moreover have "distinct (map fst ((d @ [(k, v)]) @ hs))"
    using Cons.prems by (simp add: h)
  ultimately show ?case using Cons.IH [of "d @ [(k, v)]"] by (simp add: h)
qed

text \<open>
  Claim C3, as the server has it.  The transcript (the handler logs one unless the
  body read raises) is rendered from the dict built from the header list.  Its names are the names of the request, unchanged in case, each
  once and in the order of first arrival; a name that arrives several times keeps the
  value that arrived last; a header list whose names are all different is recorded
  exactly as it arrived.
\<close>

theorem transcript_headers_deduplicated:
  "logged (respond L srv ts r w) =
     logged w
     @ (case fst (read_body L r w) of
          Inl e \<Rightarrow> []
        | Inr body \<Rightarrow>
            [log_request L ts (command r) (path r) (full_url srv r)
               (dict_of_items (headers r)) body (client_address r)])
   \<and> map fst (dict_of_items (headers r)) = first_arrivals (map fst (headers r))
   \<and> map_of (dict_of_items (headers r)) = map_of (rev (headers r))
   \<and> (distinct (map fst (headers r)) \<longrightarrow> dict_of_items (headers r) = headers r)"
  using foldl_dict_set_keys [of "[]" "headers r"] foldl_dict_set_map_of [of "[]" "headers r"]
    foldl_dict_set_distinct [of "[]" "headers r"]
  by (simp add: respond_logged dict_of_items_def)

theorem transcript_headers_deduplicated_witness:
  "dict_of_items [(lit ''Host'', lit ''h''), (lit ''host'', lit ''g''), (lit ''Accept'', lit ''*'')]
   = [(lit ''Host'', lit ''h''), (lit ''host'', lit ''g''), (lit ''Accept'', lit ''*'')]"
proof -
  have d: "distinct (map fst (headers (sample_request (lit ''GET'') (lit ''/'')
             [(lit ''Host'', lit ''h''), (lit ''host'', lit ''g''), (lit ''Accept'', lit ''*'')])))"
    by (simp add: sample_request_def lit_def)
  show ?thesis
    using transcript_headers_deduplicated
            [of ascii_lib sample_server "[]"
                "sample_request (lit ''GET'') (lit ''/'')
                   [(lit ''Host'', lit ''h''), (lit ''host'', lit ''g''), (lit ''Accept'', lit ''*'')]"
                "fresh []"] d
    by (simp add: sample_request_def)
qed

text \<open>
  Two headers with the same name: the transcript holds one line, with the later value.
\<close>

theorem repeated_header_counterexample:
  "dict_of_items [(lit ''X-Tag'', lit ''a''), (lit ''X-Tag'', lit ''b'')]
     = [(lit ''X-Tag'', lit ''b'')]
   \<and> headers_block (dict_of_items [(lit ''X-Tag'', lit ''a''), (lit ''X-Tag'', lit ''b'')])
     = lit ''  - X-Tag: b''"
  by (simp add: dict_of_items_def headers_block_def lit_def nl_def)

section \<open>Properties of the transcript\<close>

subsection \<open>The Base64 field\<close>

lemma b64_val_char: "i < 64 \<Longrightarrow> b64_val (b64_char i) = Some i"
  by (auto simp: b64_val_def b64_char_def)

lemma b64_char_not_pad: "b64_char i \<noteq> 61"
  by (auto simp: b64_char_def)

lemma b64_join1: "b < 256 \<Longrightarrow> (a div 4) * 4 + ((a mod 4) * 16 + b div 16) div 16 = (a::nat)"
proof -
  assume "b < 256"
  then have "b div 16 < 16" by simp
  then have "((a mod 4) * 16 + b div 16) div 16 = a mod 4" by simp
  then show ?thesis by simp
qed

lemma b64_join2:
  "b < 256 \<Longrightarrow> c < 256 \<Longrightarrow>
   (((a mod 4) * 16 + b div 16) mod 16) * 16 + ((b mod 16) * 4 + c div 64) div 4 = (b::nat)"
proof -
  assume "b < 256" "c < 256"
  then have "c div 64 < 4" "b div 16 < 16" by simp_all
  then have "((b mod 16) * 4 + c div 64) div 4 = b mod 16"
    "((a mod 4) * 16 + b div 16) mod 16 = b div 16" by simp_all
  then show ?thesis by simp
qed

lemma b64_join3: "c < 256 \<Longrightarrow> (((b mod 16) * 4 + c div 64) mod 4) * 64 + c mod 64 = (c::nat)"
proof -
  assume "c < 256"
  then have "c div 64 < 4" by simp
  then have "((b mod 16) * 4 + c div 64) mod 4 = c div 64" by simp
  then show ?thesis by simp
qed

lemma b64_join1_pad: "(a div 4) * 4 + ((a mod 4) * 16) div 16 = (a::nat)"
  by simp

lemma b64_join2_pad:
  "b < 256 \<Longrightarrow> (((a mod 4) * 16 + b div 16) mod 16) * 16 + ((b mod 16) * 4) div 4 = (b::nat)"
proof -
  assume "b < 256"
  then have "b div 16 < 16" by simp
  then have "((a mod 4) * 16 + b div 16) mod 16 = b div 16" by simp
  then show ?thesis by simp
qed

lemma b64dec_enc: "\<forall>b \<in> set bs. b < 256 \<Longrightarrow> b64dec (b64enc bs) = Some bs"
proof (induction bs rule: b64enc.induct)
  case 1
  then show ?case by simp
next
  case (2 a)
  then have "a div 4 < 64" "(a mod 4) * 16 < 64" by auto
  then show ?case by (simp add: b64_val_char b64_join1_pad)
next
  case (3 a b)
  then have "a div 4 < 64" "(a mod 4) * 16 + b div 16 < 64" "(b mod 16) * 4 < 64" "b < 256"
    by auto
  then show ?case
    by (simp add: b64_val_char b64_char_not_pad b64_join1 b64_join2_pad)
next
  case (4 a b c rest)
  then have "a div 4 < 64" "(a mod 4) * 16 + b div 16 < 64" "(b mod 16) * 4 + c div 64 < 64"
    "c mod 64 < 64" "b < 256" "c < 256" by auto
  with 4 show ?case
    by (simp add: b64_val_char b64_char_not_pad b64_join1 b64_join2 b64_join3)
qed

text \<open>
  Claim C5.  The eleventh line of the transcript is \<open>base64: \<close> followed by the
  Base64 text of the body, and decoding that text gives back the body, byte for byte,
  for every byte sequence: empty, text, or not valid UTF-8.
\<close>

theorem base64_field_round_trip:
  "transcript_lines L ts m p u h body c ! 10 = lit ''  base64: '' @ b64encode body
   \<and> b64decode (b64encode body) = Some body"
proof -
  have "unat b < 256" for b :: byte
    using unsigned_less [of b, where ?'a = nat] by simp
  then have "\<forall>b \<in> set (map unat body). b < 256" by auto
  then have "b64dec (b64enc (map unat body)) = Some (map unat body)" by (rule b64dec_enc)
  then have "b64decode (b64encode body) = Some body"
    by (simp add: b64decode_def b64encode_def comp_def)
  moreover have "transcript_lines L ts m p u h body c ! 10 = lit ''  base64: '' @ b64encode body"
    by (simp add: transcript_lines_def Let_def b64encode_def)
  ultimately show ?thesis by simp
qed

subsection \<open>The layout of the block\<close>



lemma utf8_replace_strict:
  "utf8_strict bs = Some t \<Longrightarrow> utf8_replace bs = t"
  by (induction bs arbitrary: t rule: utf8_strict.induct) (auto split: prod.splits option.splits)


section \<open>Properties of the replay commands\<close>

subsection \<open>UTF-8 and ISO-8859-1 text back to bytes\<close>











subsection \<open>Reading quoted words\<close>











subsection \<open>The curl command\<close>








subsection \<open>The httpie command\<close>









end
